theory Spec2Isabelle
  imports Main "HOL-Library.Word"
begin

section \<open>Go values shared by the supervisor and the edge dialer\<close>

subsection \<open>Errors\<close>

text \<open>
  A Go \<open>error\<close> is an interface value: \<open>nil\<close>, or a value with a dynamic type, an
  \<open>Error()\<close> text and possibly an \<open>Unwrap()\<close> method. A possibly-nil error is a
  \<open>go_error option\<close>, \<open>None\<close> being \<open>nil\<close>.

  \<open>DialError\<close> is the type of \<open>edgediscovery/dial.go\<close>: it holds a \<open>cause\<close>, its
  \<open>Error()\<close> is the cause's, and it has a \<open>Cause()\<close> method but no \<open>Unwrap()\<close>.
  \<open>Wrap e msg\<close> is the value \<open>errors.Wrap(e, msg)\<close> of \<open>github.com/pkg/errors\<close>.
  Every other error type the code switches on is declared elsewhere (in the packages
  \<open>quic\<close>, \<open>connection\<close> and \<open>edgediscovery\<close>, and \<open>ReconnectSignal\<close>); a
  value of such a type is \<open>Foreign t msg u\<close>: its dynamic type, its \<open>Error()\<close> text and
  what its \<open>Unwrap()\<close> returns (\<open>None\<close> when it has none or returns \<open>nil\<close>).
\<close>

datatype foreign_type =
    DupConnRegisterTunnelError
  | IdleTimeoutError
  | TransportError
  | ApplicationError
  | EdgeQuicDialError
  | ControlStreamError
  | StreamListenerError
  | DatagramManagerError
  | ErrNoAddressesLeft
  | ReconnectSignal
  | OtherType string

datatype go_error =
    DialError (Cause: go_error)
  | Wrap go_error string
  | Foreign foreign_type string "go_error option"

fun Error :: "go_error \<Rightarrow> string" where
  "Error (DialError c) = Error c"
| "Error (Wrap e msg) = msg @ '': '' @ Error e"
| "Error (Foreign t msg u) = msg"

fun Unwrap :: "go_error \<Rightarrow> go_error option" where
  "Unwrap (DialError c) = None"
| "Unwrap (Wrap e msg) = Some e"
| "Unwrap (Foreign t msg u) = u"

text \<open>
  \<open>errors.As(err, &target)\<close> for a target of foreign type \<open>t\<close>: walk the \<open>Unwrap\<close>
  chain of \<open>err\<close> and report whether some error on it has dynamic type \<open>t\<close>.
\<close>

fun errors_As :: "go_error \<Rightarrow> foreign_type \<Rightarrow> bool" where
  "errors_As (DialError c) t = False"
| "errors_As (Wrap e msg) t = errors_As e t"
| "errors_As (Foreign t' msg u) t =
     (t' = t \<or> (case u of None \<Rightarrow> False | Some e \<Rightarrow> errors_As e t))"

text \<open>\<open>newDialError(err, message)\<close> of \<open>dial.go\<close>.\<close>

definition newDialError :: "go_error \<Rightarrow> string \<Rightarrow> go_error" where
  "newDialError err message = DialError (Wrap err message)"

subsection \<open>Strings\<close>

text \<open>\<open>strings.Contains(s, substr)\<close>: \<open>substr\<close> occurs in \<open>s\<close> as a contiguous run.\<close>

fun strings_Contains :: "string \<Rightarrow> string \<Rightarrow> bool" where
  "strings_Contains [] substr = (substr = [])"
| "strings_Contains (c # s) substr =
     (take (length substr) (c # s) = substr \<or> strings_Contains s substr)"

section \<open>Protocol fallback (supervisor/tunnel.go)\<close>

text \<open>
  Modelled from the spec: \<open>connection.Protocol\<close>, which package \<open>connection\<close> declares.
  The specification gives the protocol of a tunnel as one of QUIC and HTTP2.
\<close>

datatype Protocol = HTTP2 | QUIC

text \<open>
  Modelled from the spec: \<open>connection.ProtocolSelector\<close>, an interface of package
  \<open>connection\<close>. The specification reads it through \<open>selector.Current()\<close> and through
  \<open>hasFallback, alt = selector.Fallback()\<close>; a selector is what these two answer, the
  second as the pair of the fallback protocol and whether there is one.
\<close>

record ProtocolSelector =
  Current :: Protocol
  Fallback :: "Protocol \<times> bool"

text \<open>
  Modelled from the spec: \<open>retry.BackoffHandler\<close>, the struct that \<open>protocolFallback\<close>
  embeds, which package \<open>retry\<close> declares. The specification speaks of a backoff
  counter and of a configured number of retries: the handler is the counter and its
  maximum.
\<close>

record BackoffHandler =
  bh_retries :: nat
  bh_maxRetries :: nat

text \<open>
  Modelled from the spec: the method \<open>ResetNow\<close> of \<open>retry.BackoffHandler\<close>, which
  \<open>reset()\<close> and \<open>fallback(p)\<close> call. The specification says that both clear the backoff
  counter.
\<close>

definition ResetNow :: "BackoffHandler \<Rightarrow> BackoffHandler" where
  "ResetNow b = b\<lparr>bh_retries := 0\<rparr>"

text \<open>
  Modelled from the spec: the method \<open>ReachedMaxRetries\<close> of \<open>retry.BackoffHandler\<close>, of
  which the specification gives the name and the result type: the maximum is reached
  when the counter is not below it.
\<close>

definition ReachedMaxRetries :: "BackoffHandler \<Rightarrow> bool" where
  "ReachedMaxRetries b = (bh_maxRetries b \<le> bh_retries b)"

record protocolFallback =
  backoff :: BackoffHandler
  protocol :: Protocol
  inFallback :: bool

definition reset :: "protocolFallback \<Rightarrow> protocolFallback" where
  "reset pf = (pf\<lparr>backoff := ResetNow (backoff pf)\<rparr>)\<lparr>inFallback := False\<rparr>"

definition fallback :: "protocolFallback \<Rightarrow> Protocol \<Rightarrow> protocolFallback" where
  "fallback pf fb =
     ((pf\<lparr>backoff := ResetNow (backoff pf)\<rparr>)\<lparr>protocol := fb\<rparr>)\<lparr>inFallback := True\<rparr>"

definition isQuicBroken :: "go_error option \<Rightarrow> bool" where
  "isQuicBroken cause =
     (case cause of
        None \<Rightarrow> False
      | Some e \<Rightarrow>
          if errors_As e IdleTimeoutError then True
          else if errors_As e TransportError
                  \<and> strings_Contains (Error e) ''operation not permitted'' then True
          else False)"

text \<open>
  \<open>selectNextProtocol\<close> mutates \<open>*protocolBackoff\<close> and returns a bool: the model returns
  the bool and the new value. The log calls are left out.
\<close>

definition selectNextProtocol ::
  "protocolFallback \<Rightarrow> ProtocolSelector \<Rightarrow> go_error option \<Rightarrow> bool \<times> protocolFallback" where
  "selectNextProtocol protocolBackoff selector cause =
     (let quicBroken = isQuicBroken cause;
          hasFallback = snd (Fallback selector)
      in if ReachedMaxRetries (backoff protocolBackoff) \<or> (hasFallback \<and> quicBroken) then
           (let fb = fst (Fallback selector);
                hasFallback' = snd (Fallback selector)
            in if \<not> hasFallback' then (False, protocolBackoff)
               else if protocol protocolBackoff = fb then (False, protocolBackoff)
               else (True, fallback protocolBackoff fb))
         else if \<not> inFallback protocolBackoff then
           (let current = Current selector
            in if protocol protocolBackoff \<noteq> current
               then (True, protocolBackoff\<lparr>protocol := current\<rparr>)
               else (True, protocolBackoff))
         else (True, protocolBackoff))"

section \<open>Edge address fallback (supervisor/tunnel.go)\<close>

type_synonym uint8 = "8 word"

datatype ConnectivityError = ConnectivityError (reachedMaxRetries: bool)

definition NewConnectivityError :: "bool \<Rightarrow> ConnectivityError" where
  "NewConnectivityError hasReachedMaxRetries = ConnectivityError hasReachedMaxRetries"

definition HasReachedMaxRetries :: "ConnectivityError \<Rightarrow> bool" where
  "HasReachedMaxRetries e = reachedMaxRetries e"

text \<open>
  \<open>retriesByConnIndex\<close> is a Go \<open>map[uint8]uint8\<close>: reading a key that is absent gives
  the zero value, writing inserts the key. The mutex has no part in a sequential model.
\<close>

record ipAddrFallback =
  retriesByConnIndex :: "uint8 \<rightharpoonup> uint8"
  maxRetries :: uint8

definition NewIPAddrFallback :: "uint8 \<Rightarrow> ipAddrFallback" where
  "NewIPAddrFallback n = \<lparr>retriesByConnIndex = Map.empty, maxRetries = n\<rparr>"

definition retriesOf :: "ipAddrFallback \<Rightarrow> uint8 \<Rightarrow> uint8" where
  "retriesOf f connIndex = (case retriesByConnIndex f connIndex of None \<Rightarrow> 0 | Some n \<Rightarrow> n)"

text \<open>The body of the case \<open>edgediscovery.DialError, *connection.EdgeQuicDialError\<close>.\<close>

definition countDialFailure ::
  "ipAddrFallback \<Rightarrow> uint8 \<Rightarrow> (bool \<times> ConnectivityError option) \<times> ipAddrFallback" where
  "countDialFailure f connIndex =
     (if maxRetries f \<le> retriesOf f connIndex then
        ((True, Some (NewConnectivityError True)),
         f\<lparr>retriesByConnIndex := (retriesByConnIndex f)(connIndex \<mapsto> 0)\<rparr>)
      else
        ((True, Some (NewConnectivityError False)),
         f\<lparr>retriesByConnIndex :=
             (retriesByConnIndex f)(connIndex \<mapsto> retriesOf f connIndex + 1)\<rparr>))"

definition ShouldGetNewAddress ::
  "ipAddrFallback \<Rightarrow> uint8 \<Rightarrow> go_error option
     \<Rightarrow> (bool \<times> ConnectivityError option) \<times> ipAddrFallback" where
  "ShouldGetNewAddress f connIndex err =
     (case err of
        None \<Rightarrow> ((False, None), f)
      | Some (Foreign DupConnRegisterTunnelError msg u) \<Rightarrow> ((True, None), f)
      | Some (Foreign IdleTimeoutError msg u) \<Rightarrow> ((True, None), f)
      | Some (DialError c) \<Rightarrow> countDialFailure f connIndex
      | Some (Foreign EdgeQuicDialError msg u) \<Rightarrow> countDialFailure f connIndex
      | Some _ \<Rightarrow> ((False, None), f))"

text \<open>A sequence of calls on one handler, each with its index and its error.\<close>

fun callsShouldGetNewAddress ::
  "ipAddrFallback \<Rightarrow> (uint8 \<times> go_error option) list \<Rightarrow> ipAddrFallback" where
  "callsShouldGetNewAddress f [] = f"
| "callsShouldGetNewAddress f ((i, err) # calls) =
     callsShouldGetNewAddress (snd (ShouldGetNewAddress f i err)) calls"

section \<open>The supervisor (supervisor/supervisor.go)\<close>

subsection \<open>The tunnels that are connecting\<close>

text \<open>
  A channel is named by a number. \<open>tunnelsConnecting\<close> is a Go \<open>map[int]chan struct{}\<close>;
  \<open>nextConnectedSignal\<close> is a channel or \<open>nil\<close> (\<open>None\<close>).
\<close>

type_synonym chan = nat

record Supervisor =
  tunnelsConnecting :: "int \<rightharpoonup> chan"
  nextConnectedIndex :: int
  nextConnectedSignal :: "chan option"

text \<open>\<open>sig\<close> is the channel that \<open>make(chan struct{})\<close> returns.\<close>

definition newConnectedTunnelSignal :: "Supervisor \<Rightarrow> int \<Rightarrow> chan \<Rightarrow> Supervisor" where
  "newConnectedTunnelSignal s index sig =
     s\<lparr>tunnelsConnecting := (tunnelsConnecting s)(index \<mapsto> sig),
       nextConnectedSignal := Some sig,
       nextConnectedIndex := index\<rparr>"

text \<open>
  Go visits the keys of a map in an order of its own choosing, which may differ from one
  \<open>range\<close> statement to the next. The order this \<open>range\<close> takes is an argument:
  \<open>range_order order m\<close> says that \<open>order\<close> lists the keys of \<open>m\<close>, each once.
  The loop body returns in its first iteration, so only the first key matters.
\<close>

definition range_order :: "int list \<Rightarrow> (int \<rightharpoonup> chan) \<Rightarrow> bool" where
  "range_order order m = (distinct order \<and> set order = dom m)"

definition waitForNextTunnel :: "Supervisor \<Rightarrow> int \<Rightarrow> int list \<Rightarrow> bool \<times> Supervisor" where
  "waitForNextTunnel s index order =
     (let s1 = s\<lparr>tunnelsConnecting := (tunnelsConnecting s)(index := None)\<rparr>;
          s2 = s1\<lparr>nextConnectedSignal := None\<rparr>
      in case order of
           [] \<Rightarrow> (False, s2)
         | k # rest \<Rightarrow>
             (True, s2\<lparr>nextConnectedIndex := k,
                      nextConnectedSignal := tunnelsConnecting s2 k\<rparr>))"

subsection \<open>The steady-state loop of \<open>Run\<close>\<close>

text \<open>
  The local variables of the loop, with the supervisor's fields, are the state of one
  turn of the \<open>select\<close>. Three fields record what the loop does to the world:
  \<open>started\<close> lists the indices for which \<open>go s.startTunnel\<close> was issued, in order;
  \<open>chansMade\<close> counts the channels made so far, the next one made being named by the
  count; \<open>gracePeriods\<close> counts the calls of \<open>backoff.SetGracePeriod()\<close>.
  \<open>backoffTimer\<close> is a channel or \<open>nil\<close>.
\<close>

record RunState =
  supervisor :: Supervisor
  tunnelsWaiting :: "int list"
  tunnelsActive :: int
  backoffTimer :: "chan option"
  shuttingDown :: bool
  started :: "int list"
  chansMade :: nat
  gracePeriods :: nat

text \<open>
  What a turn reads from outside the loop: \<open>rd_retry\<close> is the second result of
  \<open>GetMaxBackoffDuration\<close> on the index's protocol fallback, \<open>rd_newTimer\<close> what
  \<open>backoff.BackoffTimer()\<close> returns, \<open>rd_order\<close> the order the \<open>range\<close> of
  \<open>waitForNextTunnel\<close> takes.
\<close>

record Reads =
  rd_retry :: bool
  rd_newTimer :: "chan option"
  rd_order :: "int list"

datatype event =
    CtxDone
  | TunnelError int "go_error option"
  | BackoffTimerFired
  | NextConnectedSignalFired
  | GracefulShutdown

datatype turn = Continue RunState | Return "go_error option"

text \<open>\<open>go s.startTunnel(ctx, index, s.newConnectedTunnelSignal(index))\<close>.\<close>

definition spawnTunnel :: "RunState \<Rightarrow> int \<Rightarrow> RunState" where
  "spawnTunnel st index =
     st\<lparr>supervisor := newConnectedTunnelSignal (supervisor st) index (chansMade st),
        chansMade := chansMade st + 1,
        started := started st @ [index]\<rparr>"

definition onTunnelError :: "Reads \<Rightarrow> RunState \<Rightarrow> int \<Rightarrow> go_error option \<Rightarrow> turn" where
  "onTunnelError rd st index err =
     (let st1 = st\<lparr>tunnelsActive := tunnelsActive st - 1\<rparr>
      in if err \<noteq> None \<and> \<not> shuttingDown st1 then
           (case err of
              Some (Foreign ReconnectSignal msg u) \<Rightarrow>
                (let st2 = spawnTunnel st1 index
                 in Continue (st2\<lparr>tunnelsActive := tunnelsActive st2 + 1\<rparr>))
            | _ \<Rightarrow>
                if \<not> rd_retry rd then Continue st1
                else
                  (let st2 = st1\<lparr>tunnelsWaiting := tunnelsWaiting st1 @ [index]\<rparr>;
                       st3 = st2\<lparr>supervisor := snd (waitForNextTunnel (supervisor st2) index (rd_order rd))\<rparr>
                   in if backoffTimer st3 = None
                      then Continue (st3\<lparr>backoffTimer := rd_newTimer rd\<rparr>)
                      else Continue st3))
         else if tunnelsActive st1 = 0 then Return None
         else Continue st1)"

definition onBackoffTimer :: "RunState \<Rightarrow> turn" where
  "onBackoffTimer st =
     (let st1 = st\<lparr>backoffTimer := None\<rparr>;
          st2 = foldl spawnTunnel st1 (tunnelsWaiting st1);
          st3 = st2\<lparr>tunnelsActive := tunnelsActive st2 + int (length (tunnelsWaiting st2))\<rparr>
      in Continue (st3\<lparr>tunnelsWaiting := []\<rparr>))"

definition onNextConnectedSignal :: "Reads \<Rightarrow> RunState \<Rightarrow> turn" where
  "onNextConnectedSignal rd st =
     (let r = waitForNextTunnel (supervisor st) (nextConnectedIndex (supervisor st)) (rd_order rd);
          st1 = st\<lparr>supervisor := snd r\<rparr>
      in if \<not> fst r \<and> length (tunnelsWaiting st1) = 0
         then Continue (st1\<lparr>gracePeriods := gracePeriods st1 + 1\<rparr>)
         else Continue st1)"

text \<open>
  One turn of the loop on the event its \<open>select\<close> receives. On \<open>ctx.Done\<close> the loop
  receives one tunnel error for every active tunnel and returns \<open>nil\<close>.
\<close>

fun Run_turn :: "Reads \<Rightarrow> RunState \<Rightarrow> event \<Rightarrow> turn" where
  "Run_turn rd st CtxDone = Return None"
| "Run_turn rd st (TunnelError index err) = onTunnelError rd st index err"
| "Run_turn rd st BackoffTimerFired = onBackoffTimer st"
| "Run_turn rd st NextConnectedSignalFired = onNextConnectedSignal rd st"
| "Run_turn rd st GracefulShutdown = Continue (st\<lparr>shuttingDown := True\<rparr>)"

subsection \<open>The first tunnel\<close>




section \<open>The edge dialer (edgediscovery/dial.go)\<close>

text \<open>
  A TCP connection is named by a number; \<open>tls_Client c\<close> is the TLS connection
  \<open>tls.Client(c, tlsConfig)\<close> over it. A \<open>net.IP\<close> is a byte slice or \<open>nil\<close> (\<open>None\<close>).
  A parsed URL is modelled by what the code reads of it: the user information (a name
  and, when set, a password), \<open>Host\<close>, and the answers of \<open>Hostname()\<close> and \<open>Port()\<close>.
\<close>

type_synonym conn = nat

datatype tls_Conn = tls_Client conn

type_synonym IP = "uint8 list"

record URL =
  User :: "(string \<times> string option) option"
  Host :: string
  Hostname :: string
  Port :: string

record proxy_Auth =
  auth_User :: string
  auth_Password :: string

text \<open>
  What the libraries and the network answer during one call. \<open>url_Parse\<close> is
  \<open>url.Parse\<close>; \<open>proxy_SOCKS5\<close> is the error of \<open>proxy.SOCKS5("tcp", addr, auth, forward)\<close>,
  \<open>None\<close> when the dialer is made, the forwarding dialer being given by its local IP;
  \<open>socks5_Dial\<close> is the outcome of dialling the address through that dialer and
  \<open>net_Dial\<close> of dialling it directly from the local IP, each under the context's
  deadline; \<open>tls_Handshake\<close> is the error of the handshake on a connection, \<open>None\<close>
  when it succeeds.
\<close>

record network =
  url_Parse :: "string \<Rightarrow> go_error + URL"
  proxy_SOCKS5 :: "string \<Rightarrow> proxy_Auth option \<Rightarrow> IP option \<Rightarrow> go_error option"
  socks5_Dial :: "string \<Rightarrow> proxy_Auth option \<Rightarrow> IP option \<Rightarrow> string \<Rightarrow> go_error + conn"
  net_Dial :: "IP option \<Rightarrow> string \<Rightarrow> go_error + conn"
  tls_Handshake :: "conn \<Rightarrow> go_error option"

text \<open>What a call does to connections, in order. The code at hand never closes one.\<close>

datatype conn_event =
    Opened conn
  | DeadlineSet conn
  | DeadlineCleared conn
  | Closed conn

text \<open>\<open>net.JoinHostPort\<close>: a host with a colon is put in brackets.\<close>

definition JoinHostPort :: "string \<Rightarrow> string \<Rightarrow> string" where
  "JoinHostPort host port =
     (if CHR '':'' \<in> set host then ''['' @ host @ '']:'' @ port else host @ '':'' @ port)"

definition dialViaProxy :: "network \<Rightarrow> string \<Rightarrow> string \<Rightarrow> IP option \<Rightarrow> go_error + conn" where
  "dialViaProxy net proxyURL address localIP =
     (case url_Parse net proxyURL of
        Inl err \<Rightarrow> Inl (Wrap err ''invalid proxy URL'')
      | Inr u \<Rightarrow>
          (let baseDial = localIP;
               auth = (case User u of
                         None \<Rightarrow> None
                       | Some (name, password) \<Rightarrow>
                           Some \<lparr>auth_User = name,
                                 auth_Password = (case password of None \<Rightarrow> [] | Some p \<Rightarrow> p)\<rparr>);
               proxyAddr = (if Port u = [] then JoinHostPort (Hostname u) ''1080'' else Host u)
           in case proxy_SOCKS5 net proxyAddr auth baseDial of
                Some err \<Rightarrow> Inl (Wrap err ''failed to create SOCKS5 dialer'')
              | None \<Rightarrow>
                  (case socks5_Dial net proxyAddr auth baseDial address of
                     Inl err \<Rightarrow> Inl (Wrap err ''proxy dial failed'')
                   | Inr c \<Rightarrow> Inr c)))"

definition dialDirect :: "network \<Rightarrow> string \<Rightarrow> IP option \<Rightarrow> go_error + conn" where
  "dialDirect net address localIP = net_Dial net localIP address"

text \<open>
  The end of \<open>DialEdgeWithProxy\<close>, from \<open>tls.Client\<close> on, for the connection \<open>edgeConn\<close>
  that was opened: the deadline is set, the handshake runs, and the deadline is cleared
  when it succeeds.
\<close>

definition handshakeWithEdge :: "network \<Rightarrow> conn \<Rightarrow> (go_error + tls_Conn) \<times> conn_event list" where
  "handshakeWithEdge net edgeConn =
     (case tls_Handshake net edgeConn of
        Some err \<Rightarrow>
          (Inl (newDialError err ''TLS handshake with edge error''), [DeadlineSet edgeConn])
      | None \<Rightarrow>
          (Inr (tls_Client edgeConn), [DeadlineSet edgeConn, DeadlineCleared edgeConn]))"

text \<open>A dial that succeeded opened its connection before anything else happened to it.\<close>

definition opened ::
  "conn \<Rightarrow> (go_error + tls_Conn) \<times> conn_event list \<Rightarrow> (go_error + tls_Conn) \<times> conn_event list" where
  "opened c r = (fst r, Opened c # snd r)"

text \<open>\<open>edgeTCPAddr\<close> stands for the text \<open>edgeTCPAddr.String()\<close>.\<close>

definition DialEdgeWithProxy ::
  "network \<Rightarrow> string \<Rightarrow> IP option \<Rightarrow> string \<Rightarrow> (go_error + tls_Conn) \<times> conn_event list" where
  "DialEdgeWithProxy net edgeTCPAddr localIP proxyURL =
     (let edgeConn =
            (if proxyURL \<noteq> [] then
               (case dialViaProxy net proxyURL edgeTCPAddr localIP of
                  Inl err \<Rightarrow> None
                | Inr c \<Rightarrow> Some c)
             else None)
      in case edgeConn of
           None \<Rightarrow>
             (case dialDirect net edgeTCPAddr localIP of
                Inl err \<Rightarrow> (Inl (newDialError err ''DialContext error''), [])
              | Inr c \<Rightarrow> opened c (handshakeWithEdge net c))
         | Some c \<Rightarrow> opened c (handshakeWithEdge net c))"

definition DialEdge :: "network \<Rightarrow> string \<Rightarrow> IP option \<Rightarrow> (go_error + tls_Conn) \<times> conn_event list" where
  "DialEdge net edgeTCPAddr localIP = DialEdgeWithProxy net edgeTCPAddr localIP []"

section \<open>Properties of the protocol fallback\<close>

lemma ResetNow_retries: "bh_retries (ResetNow b) = 0"
  by (simp add: ResetNow_def)

lemma ReachedMaxRetries_ResetNow: "ReachedMaxRetries (ResetNow b) = (bh_maxRetries b = 0)"
  by (simp add: ReachedMaxRetries_def ResetNow_def)

lemma selectNextProtocol_stops:
  "fst (selectNextProtocol pb sel c) = False \<longleftrightarrow>
     (ReachedMaxRetries (backoff pb) \<or> (snd (Fallback sel) \<and> isQuicBroken c))
     \<and> (\<not> snd (Fallback sel) \<or> protocol pb = fst (Fallback sel))"
  by (simp add: selectNextProtocol_def Let_def)

lemma selectNextProtocol_switches:
  "ReachedMaxRetries (backoff pb) \<or> (snd (Fallback sel) \<and> isQuicBroken c) \<Longrightarrow>
   snd (Fallback sel) \<Longrightarrow> protocol pb \<noteq> fst (Fallback sel) \<Longrightarrow>
   selectNextProtocol pb sel c = (True, fallback pb (fst (Fallback sel)))"
  by (auto simp add: selectNextProtocol_def Let_def)

lemma selectNextProtocol_current:
  "\<not> (ReachedMaxRetries (backoff pb) \<or> (snd (Fallback sel) \<and> isQuicBroken c)) \<Longrightarrow>
   \<not> inFallback pb \<Longrightarrow>
   selectNextProtocol pb sel c = (True, pb\<lparr>protocol := Current sel\<rparr>)"
  by (auto simp add: selectNextProtocol_def Let_def)

lemma isQuicBroken_iff:
  "isQuicBroken c \<longleftrightarrow>
     (\<exists>e. c = Some e \<and> (errors_As e IdleTimeoutError
        \<or> (errors_As e TransportError \<and> strings_Contains (Error e) ''operation not permitted'')))"
  by (cases c) (auto simp: isQuicBroken_def)

lemma selectNextProtocol_twice_state:
  "snd (selectNextProtocol (snd (selectNextProtocol pb sel c)) sel c)
     = snd (selectNextProtocol pb sel c)"
  by (simp add: selectNextProtocol_def Let_def fallback_def)

lemma selectNextProtocol_twice_same:
  "\<not> ((ReachedMaxRetries (backoff pb) \<or> (snd (Fallback sel) \<and> isQuicBroken c))
       \<and> snd (Fallback sel) \<and> protocol pb \<noteq> fst (Fallback sel)) \<Longrightarrow>
   fst (selectNextProtocol (snd (selectNextProtocol pb sel c)) sel c)
     = fst (selectNextProtocol pb sel c)"
  by (auto simp add: selectNextProtocol_def Let_def fallback_def)

lemma selectNextProtocol_twice_switched:
  "ReachedMaxRetries (backoff pb) \<or> (snd (Fallback sel) \<and> isQuicBroken c) \<Longrightarrow>
   snd (Fallback sel) \<Longrightarrow> protocol pb \<noteq> fst (Fallback sel) \<Longrightarrow>
   fst (selectNextProtocol pb sel c) \<and>
   fst (selectNextProtocol (snd (selectNextProtocol pb sel c)) sel c)
     = (\<not> (ReachedMaxRetries (backoff (fallback pb (fst (Fallback sel)))) \<or> isQuicBroken c))"
  by (auto simp add: selectNextProtocol_def Let_def fallback_def)

text \<open>
  C8, as the code has it. After \<open>reset()\<close> the value is not in fallback and its backoff
  counter is zero, so that \<open>ReachedMaxRetries()\<close> is false exactly when the configured
  maximum is not zero; after \<open>fallback(p)\<close> the value is in fallback, its protocol is \<open>p\<close>
  and its backoff counter is zero.
\<close>

theorem reset_fallback_postconditions:
  "\<not> inFallback (reset pf)
   \<and> bh_retries (backoff (reset pf)) = 0
   \<and> (ReachedMaxRetries (backoff (reset pf)) = (bh_maxRetries (backoff pf) = 0))
   \<and> inFallback (fallback pf p)
   \<and> protocol (fallback pf p) = p
   \<and> bh_retries (backoff (fallback pf p)) = 0"
  by (simp add: reset_def fallback_def ResetNow_retries ReachedMaxRetries_ResetNow)

text \<open>
  C8 as stated fails for a handler whose maximum is zero: right after \<open>reset()\<close> the
  counter, zero, has reached it.
\<close>

theorem reset_reached_max_counterexample:
  "ReachedMaxRetries (backoff (reset
     \<lparr>backoff = \<lparr>bh_retries = 3, bh_maxRetries = 0\<rparr>, protocol = QUIC, inFallback = True\<rparr>))"
  by (simp add: reset_def ResetNow_def ReachedMaxRetries_def)

text \<open>
  C2. \<open>selectNextProtocol\<close> returns false exactly when the guard holds (the maximum of
  retries is reached, or there is a fallback and the cause is QUIC-broken) and there is
  no fallback or the protocol is the fallback already; when the guard holds and there is
  a fallback that differs from the protocol, it calls \<open>fallback\<close> with it and returns
  true; when the guard does not hold and the value is not in fallback, it sets the
  protocol to \<open>selector.Current()\<close> and returns true. A cause is QUIC-broken when
  \<open>errors.As\<close> finds an idle timeout in it, or finds a transport error in it and its text
  contains "operation not permitted".
\<close>

theorem selectNextProtocol_decision:
  "(fst (selectNextProtocol pb sel c) = False \<longleftrightarrow>
      (ReachedMaxRetries (backoff pb) \<or> (snd (Fallback sel) \<and> isQuicBroken c))
      \<and> (\<not> snd (Fallback sel) \<or> protocol pb = fst (Fallback sel)))
   \<and> ((ReachedMaxRetries (backoff pb) \<or> (snd (Fallback sel) \<and> isQuicBroken c))
        \<and> snd (Fallback sel) \<and> protocol pb \<noteq> fst (Fallback sel) \<longrightarrow>
      selectNextProtocol pb sel c = (True, fallback pb (fst (Fallback sel))))
   \<and> (\<not> (ReachedMaxRetries (backoff pb) \<or> (snd (Fallback sel) \<and> isQuicBroken c))
        \<and> \<not> inFallback pb \<longrightarrow>
      selectNextProtocol pb sel c = (True, pb\<lparr>protocol := Current sel\<rparr>))
   \<and> (isQuicBroken c \<longleftrightarrow>
        (\<exists>e. c = Some e \<and> (errors_As e IdleTimeoutError
           \<or> (errors_As e TransportError
               \<and> strings_Contains (Error e) ''operation not permitted''))))"
proof (intro conjI impI)
  show "fst (selectNextProtocol pb sel c) = False \<longleftrightarrow>
      (ReachedMaxRetries (backoff pb) \<or> (snd (Fallback sel) \<and> isQuicBroken c))
      \<and> (\<not> snd (Fallback sel) \<or> protocol pb = fst (Fallback sel))"
    by (rule selectNextProtocol_stops)
next
  assume "(ReachedMaxRetries (backoff pb) \<or> (snd (Fallback sel) \<and> isQuicBroken c))
        \<and> snd (Fallback sel) \<and> protocol pb \<noteq> fst (Fallback sel)"
  then show "selectNextProtocol pb sel c = (True, fallback pb (fst (Fallback sel)))"
    using selectNextProtocol_switches [of pb sel c] by blast
next
  assume "\<not> (ReachedMaxRetries (backoff pb) \<or> (snd (Fallback sel) \<and> isQuicBroken c))
        \<and> \<not> inFallback pb"
  then show "selectNextProtocol pb sel c = (True, pb\<lparr>protocol := Current sel\<rparr>)"
    using selectNextProtocol_current [of pb sel c] by blast
next
  show "isQuicBroken c \<longleftrightarrow>
        (\<exists>e. c = Some e \<and> (errors_As e IdleTimeoutError
           \<or> (errors_As e TransportError
               \<and> strings_Contains (Error e) ''operation not permitted'')))"
    by (rule isQuicBroken_iff)
qed

text \<open>
  Two runs of the theorem. A QUIC tunnel whose cause is a transport error with
  "operation not permitted", under a selector with the fallback HTTP2, switches to
  HTTP2. An HTTP2 tunnel with retries left and a dial error, not in fallback, under a
  selector whose current protocol is QUIC, is set to QUIC.
\<close>

theorem selectNextProtocol_decision_witness:
  "isQuicBroken (Some (Foreign TransportError ''sendmsg: operation not permitted'' None))
   \<and> selectNextProtocol
        \<lparr>backoff = \<lparr>bh_retries = 1, bh_maxRetries = 5\<rparr>, protocol = QUIC, inFallback = False\<rparr>
        \<lparr>Current = QUIC, Fallback = (HTTP2, True)\<rparr>
        (Some (Foreign TransportError ''sendmsg: operation not permitted'' None))
      = (True,
         \<lparr>backoff = \<lparr>bh_retries = 0, bh_maxRetries = 5\<rparr>, protocol = HTTP2, inFallback = True\<rparr>)
   \<and> \<not> isQuicBroken (Some (DialError (Foreign (OtherType ''*net.OpError'') ''refused'' None)))
   \<and> selectNextProtocol
        \<lparr>backoff = \<lparr>bh_retries = 1, bh_maxRetries = 5\<rparr>, protocol = HTTP2, inFallback = False\<rparr>
        \<lparr>Current = QUIC, Fallback = (HTTP2, True)\<rparr>
        (Some (DialError (Foreign (OtherType ''*net.OpError'') ''refused'' None)))
      = (True,
         \<lparr>backoff = \<lparr>bh_retries = 1, bh_maxRetries = 5\<rparr>, protocol = QUIC, inFallback = False\<rparr>)"
  using
    selectNextProtocol_decision
      [of "\<lparr>backoff = \<lparr>bh_retries = 1, bh_maxRetries = 5\<rparr>, protocol = QUIC, inFallback = False\<rparr>"
          "\<lparr>Current = QUIC, Fallback = (HTTP2, True)\<rparr>"
          "Some (Foreign TransportError ''sendmsg: operation not permitted'' None)"]
    selectNextProtocol_decision
      [of "\<lparr>backoff = \<lparr>bh_retries = 1, bh_maxRetries = 5\<rparr>, protocol = HTTP2, inFallback = False\<rparr>"
          "\<lparr>Current = QUIC, Fallback = (HTTP2, True)\<rparr>"
          "Some (DialError (Foreign (OtherType ''*net.OpError'') ''refused'' None))"]
  by (simp add: isQuicBroken_def ReachedMaxRetries_def fallback_def ResetNow_def)

text \<open>
  C6, as the code has it. A second run of \<open>selectNextProtocol\<close>, with the same selector
  and cause, from the state the first run left, leaves that state as it is. It returns
  what the first run returned unless the first run switched to the fallback protocol;
  then the first run returned true, and the second returns true exactly when the guard
  no longer holds: the cause is not QUIC-broken, and \<open>ReachedMaxRetries()\<close> is false on
  the backoff that \<open>fallback\<close> has just cleared.
\<close>

theorem selectNextProtocol_twice:
  "snd (selectNextProtocol (snd (selectNextProtocol pb sel c)) sel c)
     = snd (selectNextProtocol pb sel c)
   \<and> (\<not> ((ReachedMaxRetries (backoff pb) \<or> (snd (Fallback sel) \<and> isQuicBroken c))
          \<and> snd (Fallback sel) \<and> protocol pb \<noteq> fst (Fallback sel)) \<longrightarrow>
      fst (selectNextProtocol (snd (selectNextProtocol pb sel c)) sel c)
        = fst (selectNextProtocol pb sel c))
   \<and> ((ReachedMaxRetries (backoff pb) \<or> (snd (Fallback sel) \<and> isQuicBroken c))
          \<and> snd (Fallback sel) \<and> protocol pb \<noteq> fst (Fallback sel) \<longrightarrow>
      fst (selectNextProtocol pb sel c)
      \<and> fst (selectNextProtocol (snd (selectNextProtocol pb sel c)) sel c)
          = (\<not> (ReachedMaxRetries (backoff (fallback pb (fst (Fallback sel))))
                 \<or> isQuicBroken c)))"
proof (intro conjI impI)
  show "snd (selectNextProtocol (snd (selectNextProtocol pb sel c)) sel c)
     = snd (selectNextProtocol pb sel c)"
    by (rule selectNextProtocol_twice_state)
next
  assume "\<not> ((ReachedMaxRetries (backoff pb) \<or> (snd (Fallback sel) \<and> isQuicBroken c))
          \<and> snd (Fallback sel) \<and> protocol pb \<noteq> fst (Fallback sel))"
  then show "fst (selectNextProtocol (snd (selectNextProtocol pb sel c)) sel c)
        = fst (selectNextProtocol pb sel c)"
    by (rule selectNextProtocol_twice_same)
next
  assume a: "(ReachedMaxRetries (backoff pb) \<or> (snd (Fallback sel) \<and> isQuicBroken c))
          \<and> snd (Fallback sel) \<and> protocol pb \<noteq> fst (Fallback sel)"
  then show "fst (selectNextProtocol pb sel c)"
    using selectNextProtocol_twice_switched [of pb sel c] by blast
  from a show "fst (selectNextProtocol (snd (selectNextProtocol pb sel c)) sel c)
          = (\<not> (ReachedMaxRetries (backoff (fallback pb (fst (Fallback sel))))
                 \<or> isQuicBroken c))"
    using selectNextProtocol_twice_switched [of pb sel c] by blast
qed

text \<open>
  Two runs of the theorem: a dial error with the maximum of retries reached, where the
  first run switches to HTTP2 and the second returns true as well; and a dial error
  with retries left, where neither run switches.
\<close>

theorem selectNextProtocol_twice_witness:
  "ReachedMaxRetries \<lparr>bh_retries = 5, bh_maxRetries = 5\<rparr>
   \<and> fst (selectNextProtocol
        \<lparr>backoff = \<lparr>bh_retries = 5, bh_maxRetries = 5\<rparr>, protocol = QUIC, inFallback = False\<rparr>
        \<lparr>Current = QUIC, Fallback = (HTTP2, True)\<rparr>
        (Some (DialError (Foreign (OtherType ''*net.OpError'') ''refused'' None))))
   \<and> fst (selectNextProtocol
        (snd (selectNextProtocol
           \<lparr>backoff = \<lparr>bh_retries = 5, bh_maxRetries = 5\<rparr>, protocol = QUIC, inFallback = False\<rparr>
           \<lparr>Current = QUIC, Fallback = (HTTP2, True)\<rparr>
           (Some (DialError (Foreign (OtherType ''*net.OpError'') ''refused'' None)))))
        \<lparr>Current = QUIC, Fallback = (HTTP2, True)\<rparr>
        (Some (DialError (Foreign (OtherType ''*net.OpError'') ''refused'' None))))
   \<and> \<not> ReachedMaxRetries \<lparr>bh_retries = 1, bh_maxRetries = 5\<rparr>
   \<and> fst (selectNextProtocol
        (snd (selectNextProtocol
           \<lparr>backoff = \<lparr>bh_retries = 1, bh_maxRetries = 5\<rparr>, protocol = HTTP2, inFallback = False\<rparr>
           \<lparr>Current = QUIC, Fallback = (HTTP2, True)\<rparr>
           (Some (DialError (Foreign (OtherType ''*net.OpError'') ''refused'' None)))))
        \<lparr>Current = QUIC, Fallback = (HTTP2, True)\<rparr>
        (Some (DialError (Foreign (OtherType ''*net.OpError'') ''refused'' None))))
      = fst (selectNextProtocol
           \<lparr>backoff = \<lparr>bh_retries = 1, bh_maxRetries = 5\<rparr>, protocol = HTTP2, inFallback = False\<rparr>
           \<lparr>Current = QUIC, Fallback = (HTTP2, True)\<rparr>
           (Some (DialError (Foreign (OtherType ''*net.OpError'') ''refused'' None))))"
  using
    selectNextProtocol_twice
      [of "\<lparr>backoff = \<lparr>bh_retries = 5, bh_maxRetries = 5\<rparr>, protocol = QUIC, inFallback = False\<rparr>"
          "\<lparr>Current = QUIC, Fallback = (HTTP2, True)\<rparr>"
          "Some (DialError (Foreign (OtherType ''*net.OpError'') ''refused'' None))"]
    selectNextProtocol_twice
      [of "\<lparr>backoff = \<lparr>bh_retries = 1, bh_maxRetries = 5\<rparr>, protocol = HTTP2, inFallback = False\<rparr>"
          "\<lparr>Current = QUIC, Fallback = (HTTP2, True)\<rparr>"
          "Some (DialError (Foreign (OtherType ''*net.OpError'') ''refused'' None))"]
  by (simp add: isQuicBroken_def ReachedMaxRetries_def fallback_def ResetNow_def)

text \<open>
  C6 as stated fails on a QUIC-broken cause: the first run switches a QUIC tunnel to the
  fallback HTTP2 and returns true; the second run, from that state, finds the tunnel on
  the fallback already and returns false.
\<close>

theorem selectNextProtocol_twice_counterexample:
  "fst (selectNextProtocol
          \<lparr>backoff = \<lparr>bh_retries = 0, bh_maxRetries = 5\<rparr>, protocol = QUIC, inFallback = False\<rparr>
          \<lparr>Current = QUIC, Fallback = (HTTP2, True)\<rparr>
          (Some (Foreign IdleTimeoutError ''timeout: no recent network activity'' None)))
     = True
   \<and> fst (selectNextProtocol
          (snd (selectNextProtocol
             \<lparr>backoff = \<lparr>bh_retries = 0, bh_maxRetries = 5\<rparr>, protocol = QUIC, inFallback = False\<rparr>
             \<lparr>Current = QUIC, Fallback = (HTTP2, True)\<rparr>
             (Some (Foreign IdleTimeoutError ''timeout: no recent network activity'' None))))
          \<lparr>Current = QUIC, Fallback = (HTTP2, True)\<rparr>
          (Some (Foreign IdleTimeoutError ''timeout: no recent network activity'' None)))
     = False"
  by (simp add: selectNextProtocol_def isQuicBroken_def fallback_def ResetNow_def
      ReachedMaxRetries_def)

section \<open>Properties of the edge address fallback\<close>

lemma uint8_inc_le: "x < (m::uint8) \<Longrightarrow> x + 1 \<le> m"
  by (rule inc_le)

lemma uint8_inc_nonzero: "x < (m::uint8) \<Longrightarrow> x + 1 \<noteq> 0"
  by (metis inc_less_eq_self_iff_eq word_order.extremum_strict word_zero_le)

lemma retriesOf_update:
  "retriesOf (f\<lparr>retriesByConnIndex := (retriesByConnIndex f)(i \<mapsto> v)\<rparr>) j
     = (if j = i then v else retriesOf f j)"
  by (simp add: retriesOf_def)

lemma countDialFailure_result:
  "fst (countDialFailure f i) = (True, Some (ConnectivityError (maxRetries f \<le> retriesOf f i)))"
  by (simp add: countDialFailure_def NewConnectivityError_def)

lemma countDialFailure_reached:
  "maxRetries f \<le> retriesOf f i \<Longrightarrow> retriesOf (snd (countDialFailure f i)) i = 0"
  by (simp add: countDialFailure_def retriesOf_update)

lemma countDialFailure_counts:
  "\<not> maxRetries f \<le> retriesOf f i \<Longrightarrow>
   retriesOf (snd (countDialFailure f i)) i = retriesOf f i + 1"
  by (simp add: countDialFailure_def retriesOf_update)

lemma countDialFailure_zero_iff:
  "(retriesOf (snd (countDialFailure f i)) i = 0) = (maxRetries f \<le> retriesOf f i)"
proof (cases "maxRetries f \<le> retriesOf f i")
  case True
  then show ?thesis by (simp add: countDialFailure_reached)
next
  case False
  then have "retriesOf f i < maxRetries f" by simp
  then have "retriesOf f i + 1 \<noteq> 0" by (rule uint8_inc_nonzero)
  with False show ?thesis by (simp add: countDialFailure_counts)
qed

lemma countDialFailure_no_wrap:
  assumes "\<not> maxRetries f \<le> retriesOf f i"
  shows "unat (retriesOf (snd (countDialFailure f i)) i) = unat (retriesOf f i) + 1"
proof -
  from assms have "retriesOf f i < maxRetries f" by simp
  then have "retriesOf f i + 1 \<noteq> 0" by (rule uint8_inc_nonzero)
  then have "unat (retriesOf f i + 1) = Suc (unat (retriesOf f i))"
    by (simp add: add.commute unatSuc)
  with assms show ?thesis by (simp add: countDialFailure_counts)
qed

lemma countDialFailure_other_index:
  "j \<noteq> i \<Longrightarrow> retriesByConnIndex (snd (countDialFailure f i)) j = retriesByConnIndex f j"
  by (simp add: countDialFailure_def)

lemma countDialFailure_maxRetries: "maxRetries (snd (countDialFailure f i)) = maxRetries f"
  by (simp add: countDialFailure_def)

lemma countDialFailure_bounded:
  assumes "\<forall>j. retriesOf f j \<le> maxRetries f"
  shows "retriesOf (snd (countDialFailure f i)) j \<le> maxRetries f"
proof (cases "maxRetries f \<le> retriesOf f i")
  case True
  then show ?thesis using assms by (simp add: countDialFailure_def retriesOf_update)
next
  case False
  then have "retriesOf f i + 1 \<le> maxRetries f" by (simp add: uint8_inc_le)
  with False show ?thesis using assms by (simp add: countDialFailure_def retriesOf_update)
qed

lemma ShouldGetNewAddress_nil: "ShouldGetNewAddress f i None = ((False, None), f)"
  by (simp add: ShouldGetNewAddress_def)

lemma ShouldGetNewAddress_DupConn:
  "ShouldGetNewAddress f i (Some (Foreign DupConnRegisterTunnelError m u)) = ((True, None), f)"
  by (simp add: ShouldGetNewAddress_def)

lemma ShouldGetNewAddress_IdleTimeout:
  "ShouldGetNewAddress f i (Some (Foreign IdleTimeoutError m u)) = ((True, None), f)"
  by (simp add: ShouldGetNewAddress_def)

lemma ShouldGetNewAddress_DialError:
  "ShouldGetNewAddress f i (Some (DialError c)) = countDialFailure f i"
  by (simp add: ShouldGetNewAddress_def)

lemma ShouldGetNewAddress_EdgeQuicDialError:
  "ShouldGetNewAddress f i (Some (Foreign EdgeQuicDialError m u)) = countDialFailure f i"
  by (simp add: ShouldGetNewAddress_def)

lemma ShouldGetNewAddress_Wrap: "ShouldGetNewAddress f i (Some (Wrap e m)) = ((False, None), f)"
  by (simp add: ShouldGetNewAddress_def)

lemma ShouldGetNewAddress_default:
  "t \<noteq> DupConnRegisterTunnelError \<Longrightarrow> t \<noteq> IdleTimeoutError \<Longrightarrow> t \<noteq> EdgeQuicDialError \<Longrightarrow>
   ShouldGetNewAddress f i (Some (Foreign t m u)) = ((False, None), f)"
  by (cases t) (simp_all add: ShouldGetNewAddress_def)

lemma ShouldGetNewAddress_cases:
  "snd (ShouldGetNewAddress f i err) = f \<or> ShouldGetNewAddress f i err = countDialFailure f i"
proof (cases err)
  case None
  then show ?thesis by (simp add: ShouldGetNewAddress_nil)
next
  case (Some e)
  show ?thesis
  proof (cases e)
    case (DialError c)
    with Some show ?thesis by (simp add: ShouldGetNewAddress_DialError)
  next
    case (Wrap e' m)
    with Some show ?thesis by (simp add: ShouldGetNewAddress_Wrap)
  next
    case (Foreign t m u)
    with Some show ?thesis by (cases t) (simp_all add: ShouldGetNewAddress_def)
  qed
qed

lemma ShouldGetNewAddress_unchanged:
  assumes "\<forall>c. err \<noteq> Some (DialError c)"
    and "\<forall>m u. err \<noteq> Some (Foreign EdgeQuicDialError m u)"
  shows "snd (ShouldGetNewAddress f i err) = f"
proof (cases err)
  case None
  then show ?thesis by (simp add: ShouldGetNewAddress_nil)
next
  case (Some e)
  show ?thesis
  proof (cases e)
    case (DialError c)
    with Some assms show ?thesis by simp
  next
    case (Wrap e' m)
    with Some show ?thesis by (simp add: ShouldGetNewAddress_Wrap)
  next
    case (Foreign t m u)
    with Some assms show ?thesis by (cases t) (simp_all add: ShouldGetNewAddress_def)
  qed
qed

lemma ShouldGetNewAddress_other_index:
  "j \<noteq> i \<Longrightarrow>
   retriesByConnIndex (snd (ShouldGetNewAddress f i err)) j = retriesByConnIndex f j"
  using ShouldGetNewAddress_cases [of f i err] by (auto simp: countDialFailure_other_index)

lemma ShouldGetNewAddress_maxRetries:
  "maxRetries (snd (ShouldGetNewAddress f i err)) = maxRetries f"
  using ShouldGetNewAddress_cases [of f i err] by (auto simp: countDialFailure_maxRetries)

lemma ShouldGetNewAddress_bounded:
  assumes "\<forall>j. retriesOf f j \<le> maxRetries f"
  shows "\<forall>j. retriesOf (snd (ShouldGetNewAddress f i err)) j
              \<le> maxRetries (snd (ShouldGetNewAddress f i err))"
  using ShouldGetNewAddress_cases [of f i err] assms countDialFailure_bounded [OF assms]
  by (auto simp: countDialFailure_maxRetries)

lemma calls_bounded:
  "\<forall>j. retriesOf f j \<le> maxRetries f \<Longrightarrow>
   \<forall>j. retriesOf (callsShouldGetNewAddress f calls) j
         \<le> maxRetries (callsShouldGetNewAddress f calls)"
proof (induction calls arbitrary: f)
  case Nil
  then show ?case by simp
next
  case (Cons a calls)
  obtain i err where a: "a = (i, err)" by (cases a)
  show ?case
    using Cons.IH [OF ShouldGetNewAddress_bounded [OF Cons.prems, of i err]] by (simp add: a)
qed

lemma calls_maxRetries: "maxRetries (callsShouldGetNewAddress f calls) = maxRetries f"
  by (induction f calls rule: callsShouldGetNewAddress.induct)
     (simp_all add: ShouldGetNewAddress_maxRetries)

lemma NewIPAddrFallback_bounded:
  "\<forall>j. retriesOf (NewIPAddrFallback n) j \<le> maxRetries (NewIPAddrFallback n)"
  by (simp add: NewIPAddrFallback_def retriesOf_def)

lemma calls_from_new_bounded:
  "retriesOf (callsShouldGetNewAddress (NewIPAddrFallback n) calls) i \<le> n"
proof -
  have "retriesOf (callsShouldGetNewAddress (NewIPAddrFallback n) calls) i
          \<le> maxRetries (callsShouldGetNewAddress (NewIPAddrFallback n) calls)"
    using calls_bounded [OF NewIPAddrFallback_bounded, of n calls] by blast
  also have "\<dots> = n" by (simp add: calls_maxRetries) (simp add: NewIPAddrFallback_def)
  finally show ?thesis .
qed

text \<open>
  C3. On a nil error \<open>ShouldGetNewAddress\<close> returns (false, nil). On a
  \<open>DupConnRegisterTunnelError\<close> or a \<open>*quic.IdleTimeoutError\<close> it returns (true, nil). On
  a \<open>DialError\<close> or a \<open>*EdgeQuicDialError\<close> it returns true and a connectivity error
  whose flag says whether the stored count of the index has reached \<open>maxRetries\<close>; when
  it has not, the count goes up by one, without wrapping; and the count is zero
  afterwards exactly when the flag is true. On an error of any other type it returns
  (false, nil). Outside the dial errors the handler is left as it is.
\<close>

theorem ShouldGetNewAddress_table:
  "ShouldGetNewAddress f i None = ((False, None), f)
   \<and> (e = Foreign DupConnRegisterTunnelError m u \<or> e = Foreign IdleTimeoutError m u \<longrightarrow>
        ShouldGetNewAddress f i (Some e) = ((True, None), f))
   \<and> (e = DialError c \<or> e = Foreign EdgeQuicDialError m u \<longrightarrow>
        fst (ShouldGetNewAddress f i (Some e))
          = (True, Some (ConnectivityError (maxRetries f \<le> retriesOf f i)))
        \<and> (\<not> maxRetries f \<le> retriesOf f i \<longrightarrow>
             retriesOf (snd (ShouldGetNewAddress f i (Some e))) i = retriesOf f i + 1
             \<and> unat (retriesOf (snd (ShouldGetNewAddress f i (Some e))) i)
                 = unat (retriesOf f i) + 1)
        \<and> ((retriesOf (snd (ShouldGetNewAddress f i (Some e))) i = 0)
             = (maxRetries f \<le> retriesOf f i)))
   \<and> ((\<forall>c'. e \<noteq> DialError c')
        \<and> (\<forall>m' u'. e \<noteq> Foreign DupConnRegisterTunnelError m' u'
                   \<and> e \<noteq> Foreign IdleTimeoutError m' u'
                   \<and> e \<noteq> Foreign EdgeQuicDialError m' u') \<longrightarrow>
        ShouldGetNewAddress f i (Some e) = ((False, None), f))"
proof (intro conjI impI)
  show "ShouldGetNewAddress f i None = ((False, None), f)"
    by (rule ShouldGetNewAddress_nil)
next
  assume "e = Foreign DupConnRegisterTunnelError m u \<or> e = Foreign IdleTimeoutError m u"
  then show "ShouldGetNewAddress f i (Some e) = ((True, None), f)"
    by (auto simp: ShouldGetNewAddress_DupConn ShouldGetNewAddress_IdleTimeout)
next
  assume "e = DialError c \<or> e = Foreign EdgeQuicDialError m u"
  then have eq: "ShouldGetNewAddress f i (Some e) = countDialFailure f i"
    by (auto simp: ShouldGetNewAddress_DialError ShouldGetNewAddress_EdgeQuicDialError)
  show "fst (ShouldGetNewAddress f i (Some e))
          = (True, Some (ConnectivityError (maxRetries f \<le> retriesOf f i)))"
    by (simp add: eq countDialFailure_result)
  show "(retriesOf (snd (ShouldGetNewAddress f i (Some e))) i = 0)
          = (maxRetries f \<le> retriesOf f i)"
    by (simp add: eq countDialFailure_zero_iff)
  assume below: "\<not> maxRetries f \<le> retriesOf f i"
  show "retriesOf (snd (ShouldGetNewAddress f i (Some e))) i = retriesOf f i + 1"
    unfolding eq by (rule countDialFailure_counts [OF below])
  show "unat (retriesOf (snd (ShouldGetNewAddress f i (Some e))) i) = unat (retriesOf f i) + 1"
    unfolding eq by (rule countDialFailure_no_wrap [OF below])
next
  assume other: "(\<forall>c'. e \<noteq> DialError c')
        \<and> (\<forall>m' u'. e \<noteq> Foreign DupConnRegisterTunnelError m' u'
                   \<and> e \<noteq> Foreign IdleTimeoutError m' u'
                   \<and> e \<noteq> Foreign EdgeQuicDialError m' u')"
  show "ShouldGetNewAddress f i (Some e) = ((False, None), f)"
  proof (cases e)
    case (DialError c')
    with other show ?thesis by simp
  next
    case (Wrap e' msg)
    then show ?thesis by (simp add: ShouldGetNewAddress_Wrap)
  next
    case (Foreign t msg un)
    with other have "t \<noteq> DupConnRegisterTunnelError" "t \<noteq> IdleTimeoutError"
      "t \<noteq> EdgeQuicDialError"
      by blast+
    with Foreign show ?thesis by (simp add: ShouldGetNewAddress_default)
  qed
qed

text \<open>
  The theorem on a handler with \<open>maxRetries = 2\<close> whose count for index 3 is 1: a
  duplicate registration rotates without a connectivity error, a dial error counts to 2
  and reports that the maximum is not reached, and a control stream error does nothing.
  On the handler whose count for index 3 is 2, a QUIC dial error reports the maximum
  and clears the count.
\<close>

theorem ShouldGetNewAddress_table_witness:
  "ShouldGetNewAddress \<lparr>retriesByConnIndex = [3 \<mapsto> 1], maxRetries = 2\<rparr> 3
      (Some (Foreign DupConnRegisterTunnelError ''already registered'' None))
     = ((True, None), \<lparr>retriesByConnIndex = [3 \<mapsto> 1], maxRetries = 2\<rparr>)
   \<and> \<not> (2::uint8) \<le> retriesOf \<lparr>retriesByConnIndex = [3 \<mapsto> 1], maxRetries = 2\<rparr> 3
   \<and> fst (ShouldGetNewAddress \<lparr>retriesByConnIndex = [3 \<mapsto> 1], maxRetries = 2\<rparr> 3
        (Some (DialError (Foreign (OtherType ''*net.OpError'') ''refused'' None))))
     = (True, Some (ConnectivityError False))
   \<and> retriesOf (snd (ShouldGetNewAddress \<lparr>retriesByConnIndex = [3 \<mapsto> 1], maxRetries = 2\<rparr> 3
        (Some (DialError (Foreign (OtherType ''*net.OpError'') ''refused'' None))))) 3 = 2
   \<and> ShouldGetNewAddress \<lparr>retriesByConnIndex = [3 \<mapsto> 1], maxRetries = 2\<rparr> 3
      (Some (Foreign ControlStreamError ''control stream closed'' None))
     = ((False, None), \<lparr>retriesByConnIndex = [3 \<mapsto> 1], maxRetries = 2\<rparr>)
   \<and> fst (ShouldGetNewAddress \<lparr>retriesByConnIndex = [3 \<mapsto> 2], maxRetries = 2\<rparr> 3
        (Some (Foreign EdgeQuicDialError ''failed to dial to edge with quic'' None)))
     = (True, Some (ConnectivityError True))
   \<and> retriesOf (snd (ShouldGetNewAddress \<lparr>retriesByConnIndex = [3 \<mapsto> 2], maxRetries = 2\<rparr> 3
        (Some (Foreign EdgeQuicDialError ''failed to dial to edge with quic'' None)))) 3 = 0"
  using
    ShouldGetNewAddress_table
      [of "\<lparr>retriesByConnIndex = [3 \<mapsto> 1], maxRetries = 2\<rparr>" 3
          "Foreign DupConnRegisterTunnelError ''already registered'' None"
          "''already registered''" None]
    ShouldGetNewAddress_table
      [of "\<lparr>retriesByConnIndex = [3 \<mapsto> 1], maxRetries = 2\<rparr>" 3
          "DialError (Foreign (OtherType ''*net.OpError'') ''refused'' None)"
          "[]" None "Foreign (OtherType ''*net.OpError'') ''refused'' None"]
    ShouldGetNewAddress_table
      [of "\<lparr>retriesByConnIndex = [3 \<mapsto> 1], maxRetries = 2\<rparr>" 3
          "Foreign ControlStreamError ''control stream closed'' None"]
    ShouldGetNewAddress_table
      [of "\<lparr>retriesByConnIndex = [3 \<mapsto> 2], maxRetries = 2\<rparr>" 3
          "Foreign EdgeQuicDialError ''failed to dial to edge with quic'' None"
          "''failed to dial to edge with quic''" None]
  by (simp add: retriesOf_def word_le_nat_alt)

text \<open>
  C10. A call for index \<open>i\<close> leaves the counter of every other index as it is, never
  changes \<open>maxRetries\<close>, and leaves the whole handler as it is unless the error is a
  \<open>DialError\<close> or a \<open>*EdgeQuicDialError\<close>. After any sequence of calls on a handler made
  by \<open>NewIPAddrFallback(n)\<close>, no stored counter exceeds \<open>n\<close>.
\<close>

theorem ShouldGetNewAddress_frame:
  "(j \<noteq> i \<longrightarrow>
      retriesByConnIndex (snd (ShouldGetNewAddress f i err)) j = retriesByConnIndex f j)
   \<and> maxRetries (snd (ShouldGetNewAddress f i err)) = maxRetries f
   \<and> ((\<forall>c. err \<noteq> Some (DialError c)) \<and> (\<forall>m u. err \<noteq> Some (Foreign EdgeQuicDialError m u)) \<longrightarrow>
        snd (ShouldGetNewAddress f i err) = f)
   \<and> retriesOf (callsShouldGetNewAddress (NewIPAddrFallback n) calls) k \<le> n"
  using ShouldGetNewAddress_other_index [of j i f err]
    ShouldGetNewAddress_maxRetries [of f i err]
    ShouldGetNewAddress_unchanged [of err f i]
    calls_from_new_bounded [of n calls k]
  by blast

text \<open>
  The theorem on a handler with \<open>maxRetries = 1\<close>: an idle timeout on index 0 changes
  nothing; a dial error on index 0 leaves the counter of index 1 alone; and after three
  dial errors on index 0 in a row its counter is at most 1.
\<close>

theorem ShouldGetNewAddress_frame_witness:
  "snd (ShouldGetNewAddress \<lparr>retriesByConnIndex = [1 \<mapsto> 1], maxRetries = 1\<rparr> 0
        (Some (Foreign IdleTimeoutError ''timeout: no recent network activity'' None)))
     = \<lparr>retriesByConnIndex = [1 \<mapsto> 1], maxRetries = 1\<rparr>
   \<and> retriesByConnIndex (snd (ShouldGetNewAddress \<lparr>retriesByConnIndex = [1 \<mapsto> 1], maxRetries = 1\<rparr> 0
        (Some (DialError (Foreign (OtherType ''*net.OpError'') ''refused'' None))))) 1 = Some 1
   \<and> retriesOf (callsShouldGetNewAddress (NewIPAddrFallback 1)
        [(0, Some (DialError (Foreign (OtherType ''*net.OpError'') ''refused'' None))),
         (0, Some (DialError (Foreign (OtherType ''*net.OpError'') ''refused'' None))),
         (0, Some (DialError (Foreign (OtherType ''*net.OpError'') ''refused'' None)))]) 0 \<le> 1"
  using
    ShouldGetNewAddress_frame
      [of 1 0 "\<lparr>retriesByConnIndex = [1 \<mapsto> 1], maxRetries = 1\<rparr>"
          "Some (Foreign IdleTimeoutError ''timeout: no recent network activity'' None)"
          1 "[(0, Some (DialError (Foreign (OtherType ''*net.OpError'') ''refused'' None))),
         (0, Some (DialError (Foreign (OtherType ''*net.OpError'') ''refused'' None))),
         (0, Some (DialError (Foreign (OtherType ''*net.OpError'') ''refused'' None)))]" 0]
    ShouldGetNewAddress_frame
      [of 1 0 "\<lparr>retriesByConnIndex = [1 \<mapsto> 1], maxRetries = 1\<rparr>"
          "Some (DialError (Foreign (OtherType ''*net.OpError'') ''refused'' None))"]
  by simp

section \<open>Properties of the supervisor\<close>

lemma waitForNextTunnel_map:
  "tunnelsConnecting (snd (waitForNextTunnel s index order))
     = (tunnelsConnecting s)(index := None)"
  by (cases order) (simp_all add: waitForNextTunnel_def)

lemma waitForNextTunnel_result: "fst (waitForNextTunnel s index order) = (order \<noteq> [])"
  by (cases order) (simp_all add: waitForNextTunnel_def)

lemma waitForNextTunnel_none_left:
  "nextConnectedSignal (snd (waitForNextTunnel s index [])) = None
   \<and> nextConnectedIndex (snd (waitForNextTunnel s index [])) = nextConnectedIndex s"
  by (simp add: waitForNextTunnel_def)

lemma waitForNextTunnel_picks_first:
  "nextConnectedIndex (snd (waitForNextTunnel s index (k # rest))) = k
   \<and> nextConnectedSignal (snd (waitForNextTunnel s index (k # rest)))
       = ((tunnelsConnecting s)(index := None)) k"
  by (simp add: waitForNextTunnel_def)

lemma absent_delete: "index \<notin> dom m \<Longrightarrow> m(index := None) = m"
  by (auto simp: fun_upd_idem_iff)

lemma range_order_empty: "range_order order m \<Longrightarrow> (order = []) = (m = Map.empty)"
  unfolding range_order_def by (metis dom_eq_empty_conv set_empty)

lemma range_order_first: "range_order (k # rest) m \<Longrightarrow> m k \<noteq> None"
  by (auto simp: range_order_def)

text \<open>
  C7, as the code has it. Called with an index that is not in \<open>tunnelsConnecting\<close>,
  \<open>waitForNextTunnel\<close> leaves \<open>tunnelsConnecting\<close> as it is and returns false exactly
  when that map is empty. When it returns false, \<open>nextConnectedSignal\<close> is \<open>nil\<close>
  afterwards and \<open>nextConnectedIndex\<close> is unchanged; when it returns true,
  \<open>nextConnectedIndex\<close> and \<open>nextConnectedSignal\<close> are afterwards some entry of the map,
  the one the \<open>range\<close> visits first.
\<close>

theorem waitForNextTunnel_absent_index:
  assumes absent: "index \<notin> dom (tunnelsConnecting s)"
    and visit: "range_order order (tunnelsConnecting s)"
  shows "tunnelsConnecting (snd (waitForNextTunnel s index order)) = tunnelsConnecting s
    \<and> (fst (waitForNextTunnel s index order) = False
         \<longleftrightarrow> tunnelsConnecting s = Map.empty)
    \<and> (\<not> fst (waitForNextTunnel s index order) \<longrightarrow>
         nextConnectedSignal (snd (waitForNextTunnel s index order)) = None
         \<and> nextConnectedIndex (snd (waitForNextTunnel s index order)) = nextConnectedIndex s)
    \<and> (fst (waitForNextTunnel s index order) \<longrightarrow>
         nextConnectedSignal (snd (waitForNextTunnel s index order)) \<noteq> None
         \<and> nextConnectedSignal (snd (waitForNextTunnel s index order))
             = tunnelsConnecting s (nextConnectedIndex (snd (waitForNextTunnel s index order)))
         \<and> nextConnectedIndex (snd (waitForNextTunnel s index order)) = hd order)"
proof -
  have same: "(tunnelsConnecting s)(index := None) = tunnelsConnecting s"
    using absent by (rule absent_delete)
  show ?thesis
  proof (cases order)
    case Nil
    with visit have "tunnelsConnecting s = Map.empty"
      using range_order_empty [of order "tunnelsConnecting s"] by simp
    with Nil same show ?thesis
      by (simp add: waitForNextTunnel_map waitForNextTunnel_result waitForNextTunnel_none_left)
  next
    case (Cons k rest)
    with visit have k: "tunnelsConnecting s k \<noteq> None"
      by (simp add: range_order_first)
    then have "tunnelsConnecting s \<noteq> Map.empty" by auto
    with Cons same k show ?thesis
      by (simp add: waitForNextTunnel_map waitForNextTunnel_result
          waitForNextTunnel_picks_first)
  qed
qed

text \<open>
  The theorem where tunnels 1 and 2 are connecting and tunnel 0 is not, with the
  \<open>range\<close> visiting 2 first; and where no tunnel is connecting.
\<close>

theorem waitForNextTunnel_absent_index_witness:
  "(0::int) \<notin> dom [1 \<mapsto> 10, 2 \<mapsto> (20::nat)]
   \<and> range_order [2, 1] [1 \<mapsto> 10, 2 \<mapsto> 20]
   \<and> fst (waitForNextTunnel
        \<lparr>tunnelsConnecting = [1 \<mapsto> 10, 2 \<mapsto> 20], nextConnectedIndex = 2,
          nextConnectedSignal = Some 20\<rparr> 0 [2, 1])
   \<and> tunnelsConnecting (snd (waitForNextTunnel
        \<lparr>tunnelsConnecting = [1 \<mapsto> 10, 2 \<mapsto> 20], nextConnectedIndex = 2,
          nextConnectedSignal = Some 20\<rparr> 0 [2, 1])) = [1 \<mapsto> 10, 2 \<mapsto> 20]
   \<and> nextConnectedSignal (snd (waitForNextTunnel
        \<lparr>tunnelsConnecting = [1 \<mapsto> 10, 2 \<mapsto> 20], nextConnectedIndex = 2,
          nextConnectedSignal = Some 20\<rparr> 0 [2, 1])) = Some 20
   \<and> range_order [] Map.empty
   \<and> \<not> fst (waitForNextTunnel
        \<lparr>tunnelsConnecting = Map.empty, nextConnectedIndex = 0,
          nextConnectedSignal = None\<rparr> 0 [])"
proof -
  have absent: "(0::int) \<notin> dom [1 \<mapsto> 10, 2 \<mapsto> (20::nat)]" by simp
  have visit: "range_order [2, 1] [1 \<mapsto> 10, 2 \<mapsto> 20]"
    by (auto simp: range_order_def)
  have absent': "0 \<notin> dom (Map.empty :: int \<rightharpoonup> chan)" by simp
  have visit': "range_order [] Map.empty" by (simp add: range_order_def)
  show ?thesis
    using absent visit visit'
      waitForNextTunnel_absent_index
        [of 0 "\<lparr>tunnelsConnecting = [1 \<mapsto> 10, 2 \<mapsto> 20], nextConnectedIndex = 2,
                 nextConnectedSignal = Some 20\<rparr>" "[2, 1]"]
      waitForNextTunnel_absent_index
        [of 0 "\<lparr>tunnelsConnecting = Map.empty, nextConnectedIndex = 0,
                 nextConnectedSignal = None\<rparr>" "[]"]
    by simp
qed

text \<open>
  C7 as stated fails. After \<open>newConnectedTunnelSignal(1)\<close> and then
  \<open>newConnectedTunnelSignal(2)\<close> the supervisor awaits tunnel 2 on channel 20. When
  \<open>waitForNextTunnel(0)\<close> is then called, tunnel 0 not being in the map, and the \<open>range\<close>
  visits key 1 first, the supervisor awaits tunnel 1 on channel 10 afterwards.
\<close>

theorem waitForNextTunnel_not_noop_counterexample:
  "0 \<notin> dom (tunnelsConnecting
       (newConnectedTunnelSignal (newConnectedTunnelSignal
          \<lparr>tunnelsConnecting = Map.empty, nextConnectedIndex = 0, nextConnectedSignal = None\<rparr>
          1 10) 2 20))
   \<and> range_order [1, 2] (tunnelsConnecting
       (newConnectedTunnelSignal (newConnectedTunnelSignal
          \<lparr>tunnelsConnecting = Map.empty, nextConnectedIndex = 0, nextConnectedSignal = None\<rparr>
          1 10) 2 20))
   \<and> nextConnectedIndex
       (newConnectedTunnelSignal (newConnectedTunnelSignal
          \<lparr>tunnelsConnecting = Map.empty, nextConnectedIndex = 0, nextConnectedSignal = None\<rparr>
          1 10) 2 20) = 2
   \<and> nextConnectedSignal
       (newConnectedTunnelSignal (newConnectedTunnelSignal
          \<lparr>tunnelsConnecting = Map.empty, nextConnectedIndex = 0, nextConnectedSignal = None\<rparr>
          1 10) 2 20) = Some 20
   \<and> nextConnectedIndex (snd (waitForNextTunnel
       (newConnectedTunnelSignal (newConnectedTunnelSignal
          \<lparr>tunnelsConnecting = Map.empty, nextConnectedIndex = 0, nextConnectedSignal = None\<rparr>
          1 10) 2 20) 0 [1, 2])) = 1
   \<and> nextConnectedSignal (snd (waitForNextTunnel
       (newConnectedTunnelSignal (newConnectedTunnelSignal
          \<lparr>tunnelsConnecting = Map.empty, nextConnectedIndex = 0, nextConnectedSignal = None\<rparr>
          1 10) 2 20) 0 [1, 2])) = Some 10"
  by (auto simp: newConnectedTunnelSignal_def waitForNextTunnel_def range_order_def)

text \<open>
  C9. While shutdown has not started, a tunnel error of type \<open>ReconnectSignal\<close> for index
  \<open>i\<close> makes the loop start tunnel \<open>i\<close> again in the same turn and go on: \<open>i\<close> is not added
  to \<open>tunnelsWaiting\<close>, the backoff timer is left as it is, and the count of active
  tunnels is what it was before the error arrived.
\<close>

theorem reconnect_signal_respawns:
  assumes "\<not> shuttingDown st"
  shows "\<exists>st'. Run_turn rd st (TunnelError i (Some (Foreign ReconnectSignal msg u))) = Continue st'
    \<and> started st' = started st @ [i]
    \<and> tunnelsWaiting st' = tunnelsWaiting st
    \<and> backoffTimer st' = backoffTimer st
    \<and> tunnelsActive st' = tunnelsActive st
    \<and> shuttingDown st' = shuttingDown st
    \<and> supervisor st' = newConnectedTunnelSignal (supervisor st) i (chansMade st)"
  using assms by (simp add: onTunnelError_def spawnTunnel_def Let_def)

text \<open>
  The theorem with tunnel 1 waiting for the backoff timer 7 when tunnel 2 reports a
  reconnect signal: tunnel 2 is started, the waiting list and the timer stay.
\<close>

theorem reconnect_signal_respawns_witness:
  "\<not> shuttingDown
       \<lparr>supervisor = \<lparr>tunnelsConnecting = Map.empty, nextConnectedIndex = 0, nextConnectedSignal = None\<rparr>,
        tunnelsWaiting = [1], tunnelsActive = 3, backoffTimer = Some 7, shuttingDown = False,
        started = [], chansMade = 4, gracePeriods = 0\<rparr>
   \<and> (\<exists>st'. Run_turn \<lparr>rd_retry = True, rd_newTimer = Some 8, rd_order = []\<rparr>
       \<lparr>supervisor = \<lparr>tunnelsConnecting = Map.empty, nextConnectedIndex = 0, nextConnectedSignal = None\<rparr>,
        tunnelsWaiting = [1], tunnelsActive = 3, backoffTimer = Some 7, shuttingDown = False,
        started = [], chansMade = 4, gracePeriods = 0\<rparr>
       (TunnelError 2 (Some (Foreign ReconnectSignal ''reconnect signal'' None))) = Continue st'
     \<and> started st' = [2] \<and> tunnelsWaiting st' = [1] \<and> backoffTimer st' = Some 7
     \<and> tunnelsActive st' = 3)"
  using reconnect_signal_respawns
    [of "\<lparr>supervisor = \<lparr>tunnelsConnecting = Map.empty, nextConnectedIndex = 0, nextConnectedSignal = None\<rparr>,
        tunnelsWaiting = [1], tunnelsActive = 3, backoffTimer = Some 7, shuttingDown = False,
        started = [], chansMade = 4, gracePeriods = 0\<rparr>"
        "\<lparr>rd_retry = True, rd_newTimer = Some 8, rd_order = []\<rparr>" 2 "''reconnect signal''" None]
  by auto






section \<open>Properties of the edge dialer\<close>

lemma dialViaProxy_error:
  "dialViaProxy net proxyURL address localIP = Inl perr \<Longrightarrow>
   \<exists>e. perr = Wrap e ''invalid proxy URL''
     \<or> perr = Wrap e ''failed to create SOCKS5 dialer''
     \<or> perr = Wrap e ''proxy dial failed''"
  by (auto simp: dialViaProxy_def Let_def split: sum.splits option.splits)

lemma dialViaProxy_invalid_URL:
  "url_Parse net proxyURL = Inl e \<Longrightarrow>
   dialViaProxy net proxyURL address localIP = Inl (Wrap e ''invalid proxy URL'')"
  by (simp add: dialViaProxy_def)

lemma handshakeWithEdge_ok:
  "tls_Handshake net c = None \<Longrightarrow>
   handshakeWithEdge net c = (Inr (tls_Client c), [DeadlineSet c, DeadlineCleared c])"
  by (simp add: handshakeWithEdge_def)

lemma handshakeWithEdge_failed:
  "tls_Handshake net c = Some err \<Longrightarrow>
   handshakeWithEdge net c
     = (Inl (newDialError err ''TLS handshake with edge error''), [DeadlineSet c])"
  by (simp add: handshakeWithEdge_def)

lemma DialEdgeWithProxy_proxy_failed:
  "dialViaProxy net proxyURL edgeTCPAddr localIP = Inl perr \<Longrightarrow>
   DialEdgeWithProxy net edgeTCPAddr localIP proxyURL
     = (case dialDirect net edgeTCPAddr localIP of
          Inl err \<Rightarrow> (Inl (newDialError err ''DialContext error''), [])
        | Inr c \<Rightarrow> opened c (handshakeWithEdge net c))"
  by (simp add: DialEdgeWithProxy_def)

lemma DialEdgeWithProxy_no_proxy:
  "DialEdgeWithProxy net edgeTCPAddr localIP []
     = (case dialDirect net edgeTCPAddr localIP of
          Inl err \<Rightarrow> (Inl (newDialError err ''DialContext error''), [])
        | Inr c \<Rightarrow> opened c (handshakeWithEdge net c))"
  by (simp add: DialEdgeWithProxy_def)

lemma DialEdgeWithProxy_error_is_DialError:
  "fst (DialEdgeWithProxy net edgeTCPAddr localIP proxyURL) = Inl err \<Longrightarrow> \<exists>c. err = DialError c"
  by (auto simp: DialEdgeWithProxy_def Let_def opened_def handshakeWithEdge_def newDialError_def
      split: sum.splits option.splits if_splits)

lemma DialEdgeWithProxy_shape:
  "(\<exists>err. dialDirect net edgeTCPAddr localIP = Inl err
      \<and> DialEdgeWithProxy net edgeTCPAddr localIP proxyURL
          = (Inl (newDialError err ''DialContext error''), []))
   \<or> (\<exists>c. DialEdgeWithProxy net edgeTCPAddr localIP proxyURL
            = opened c (handshakeWithEdge net c))"
  by (auto simp: DialEdgeWithProxy_def Let_def split: sum.splits option.splits)

lemma opened_handshake_events:
  "snd (opened c (handshakeWithEdge net c)) = [Opened c, DeadlineSet c]
     \<and> (\<exists>err. tls_Handshake net c = Some err
          \<and> fst (opened c (handshakeWithEdge net c))
              = Inl (newDialError err ''TLS handshake with edge error''))
   \<or> snd (opened c (handshakeWithEdge net c)) = [Opened c, DeadlineSet c, DeadlineCleared c]
     \<and> tls_Handshake net c = None
     \<and> fst (opened c (handshakeWithEdge net c)) = Inr (tls_Client c)"
  by (cases "tls_Handshake net c") (simp_all add: opened_def handshakeWithEdge_def)

lemma DialEdgeWithProxy_dialled:
  "(proxyURL \<noteq> [] \<and> dialViaProxy net proxyURL edgeTCPAddr localIP = Inr c)
     \<or> ((proxyURL = [] \<or> (\<exists>perr. dialViaProxy net proxyURL edgeTCPAddr localIP = Inl perr))
         \<and> dialDirect net edgeTCPAddr localIP = Inr c) \<Longrightarrow>
   DialEdgeWithProxy net edgeTCPAddr localIP proxyURL = opened c (handshakeWithEdge net c)"
  by (auto simp: DialEdgeWithProxy_def)

lemma DialEdgeWithProxy_opened_by_dial:
  "Opened c \<in> set (snd (DialEdgeWithProxy net edgeTCPAddr localIP proxyURL)) \<Longrightarrow>
   (proxyURL \<noteq> [] \<and> dialViaProxy net proxyURL edgeTCPAddr localIP = Inr c)
     \<or> dialDirect net edgeTCPAddr localIP = Inr c"
  by (auto simp: DialEdgeWithProxy_def Let_def opened_def handshakeWithEdge_def
      split: sum.splits option.splits if_splits)

lemma DialEdgeWithProxy_never_closes:
  "\<forall>c'. Closed c' \<notin> set (snd (DialEdgeWithProxy net edgeTCPAddr localIP proxyURL))"
  by (auto simp: DialEdgeWithProxy_def Let_def opened_def handshakeWithEdge_def
      split: sum.splits option.splits if_splits)

text \<open>
  C1. When the proxy URL is not empty and the attempt through the proxy fails, with
  whichever of its three errors, \<open>DialEdgeWithProxy\<close> does what it does without a proxy:
  it does not return the proxy's error, and when the direct dial and the handshake on
  its connection succeed it returns that connection wrapped in TLS, with no error.
\<close>

theorem DialEdgeWithProxy_falls_back:
  assumes "proxyURL \<noteq> []"
    and "dialViaProxy net proxyURL edgeTCPAddr localIP = Inl perr"
  shows "(\<exists>e. perr = Wrap e ''invalid proxy URL''
            \<or> perr = Wrap e ''failed to create SOCKS5 dialer''
            \<or> perr = Wrap e ''proxy dial failed'')
    \<and> fst (DialEdgeWithProxy net edgeTCPAddr localIP proxyURL) \<noteq> Inl perr
    \<and> DialEdgeWithProxy net edgeTCPAddr localIP proxyURL
        = DialEdgeWithProxy net edgeTCPAddr localIP []
    \<and> (dialDirect net edgeTCPAddr localIP = Inr c \<and> tls_Handshake net c = None \<longrightarrow>
         fst (DialEdgeWithProxy net edgeTCPAddr localIP proxyURL) = Inr (tls_Client c))"
proof (intro conjI impI)
  show wrapped: "\<exists>e. perr = Wrap e ''invalid proxy URL''
            \<or> perr = Wrap e ''failed to create SOCKS5 dialer''
            \<or> perr = Wrap e ''proxy dial failed''"
    using assms(2) by (rule dialViaProxy_error)
  show "fst (DialEdgeWithProxy net edgeTCPAddr localIP proxyURL) \<noteq> Inl perr"
  proof
    assume "fst (DialEdgeWithProxy net edgeTCPAddr localIP proxyURL) = Inl perr"
    then obtain d where "perr = DialError d"
      using DialEdgeWithProxy_error_is_DialError by blast
    with wrapped show False by auto
  qed
  show "DialEdgeWithProxy net edgeTCPAddr localIP proxyURL
        = DialEdgeWithProxy net edgeTCPAddr localIP []"
    by (simp only: DialEdgeWithProxy_proxy_failed [OF assms(2)] DialEdgeWithProxy_no_proxy)
next
  assume "dialDirect net edgeTCPAddr localIP = Inr c \<and> tls_Handshake net c = None"
  then show "fst (DialEdgeWithProxy net edgeTCPAddr localIP proxyURL) = Inr (tls_Client c)"
    by (simp add: DialEdgeWithProxy_proxy_failed [OF assms(2)] handshakeWithEdge_ok opened_def)
qed

text \<open>
  The theorem with nothing listening at the proxy \<open>socks5://127.0.0.1:9999\<close>: the dial
  through the proxy is refused, the direct dial gives connection 7 and its handshake
  succeeds.
\<close>

theorem DialEdgeWithProxy_falls_back_witness:
  "dialViaProxy
      \<lparr>url_Parse = (\<lambda>s. Inr \<lparr>User = None, Host = ''127.0.0.1:9999'',
                             Hostname = ''127.0.0.1'', Port = ''9999''\<rparr>),
       proxy_SOCKS5 = (\<lambda>a auth ip. None),
       socks5_Dial = (\<lambda>a auth ip t. Inl (Foreign (OtherType ''*net.OpError'') ''refused'' None)),
       net_Dial = (\<lambda>ip t. Inr 7),
       tls_Handshake = (\<lambda>c. None)\<rparr>
      ''socks5://127.0.0.1:9999'' ''198.41.192.167:7844'' None
     = Inl (Wrap (Foreign (OtherType ''*net.OpError'') ''refused'' None) ''proxy dial failed'')
   \<and> fst (DialEdgeWithProxy
      \<lparr>url_Parse = (\<lambda>s. Inr \<lparr>User = None, Host = ''127.0.0.1:9999'',
                             Hostname = ''127.0.0.1'', Port = ''9999''\<rparr>),
       proxy_SOCKS5 = (\<lambda>a auth ip. None),
       socks5_Dial = (\<lambda>a auth ip t. Inl (Foreign (OtherType ''*net.OpError'') ''refused'' None)),
       net_Dial = (\<lambda>ip t. Inr 7),
       tls_Handshake = (\<lambda>c. None)\<rparr>
      ''198.41.192.167:7844'' None ''socks5://127.0.0.1:9999'')
     = Inr (tls_Client 7)"
proof -
  have failed: "dialViaProxy
      \<lparr>url_Parse = (\<lambda>s. Inr \<lparr>User = None, Host = ''127.0.0.1:9999'',
                             Hostname = ''127.0.0.1'', Port = ''9999''\<rparr>),
       proxy_SOCKS5 = (\<lambda>a auth ip. None),
       socks5_Dial = (\<lambda>a auth ip t. Inl (Foreign (OtherType ''*net.OpError'') ''refused'' None)),
       net_Dial = (\<lambda>ip t. Inr 7),
       tls_Handshake = (\<lambda>c. None)\<rparr>
      ''socks5://127.0.0.1:9999'' ''198.41.192.167:7844'' None
     = Inl (Wrap (Foreign (OtherType ''*net.OpError'') ''refused'' None) ''proxy dial failed'')"
    by (simp add: dialViaProxy_def)
  have nonempty: "''socks5://127.0.0.1:9999'' \<noteq> []" by simp
  show ?thesis
    using failed
      DialEdgeWithProxy_falls_back
        [OF nonempty failed, of 7, THEN conjunct2, THEN conjunct2, THEN conjunct2]
    by (simp add: dialDirect_def)
qed

text \<open>
  C5, as the code has it. The connection that the dial through the proxy returns, or,
  when there is no proxy or the proxy attempt failed, the connection that the direct
  dial returns, is opened, given to the TLS client and has its deadline set. When the
  handshake on it succeeds the deadline is cleared and the connection is returned
  wrapped in TLS, with no error. When the handshake fails the function returns the dial
  error "TLS handshake with edge error" and does not close the connection. When the
  direct dial fails no connection is opened. No call closes any connection.
\<close>

theorem DialEdgeWithProxy_connections:
  "((proxyURL \<noteq> [] \<and> dialViaProxy net proxyURL edgeTCPAddr localIP = Inr c)
      \<or> ((proxyURL = [] \<or> (\<exists>perr. dialViaProxy net proxyURL edgeTCPAddr localIP = Inl perr))
          \<and> dialDirect net edgeTCPAddr localIP = Inr c) \<longrightarrow>
      (tls_Handshake net c = None
         \<and> DialEdgeWithProxy net edgeTCPAddr localIP proxyURL
             = (Inr (tls_Client c), [Opened c, DeadlineSet c, DeadlineCleared c]))
      \<or> (\<exists>err. tls_Handshake net c = Some err
         \<and> DialEdgeWithProxy net edgeTCPAddr localIP proxyURL
             = (Inl (newDialError err ''TLS handshake with edge error''),
                [Opened c, DeadlineSet c])))
   \<and> ((proxyURL = [] \<or> (\<exists>perr. dialViaProxy net proxyURL edgeTCPAddr localIP = Inl perr))
        \<and> dialDirect net edgeTCPAddr localIP = Inl derr \<longrightarrow>
      DialEdgeWithProxy net edgeTCPAddr localIP proxyURL
        = (Inl (newDialError derr ''DialContext error''), []))
   \<and> (Opened c \<in> set (snd (DialEdgeWithProxy net edgeTCPAddr localIP proxyURL)) \<longrightarrow>
        (proxyURL \<noteq> [] \<and> dialViaProxy net proxyURL edgeTCPAddr localIP = Inr c)
        \<or> dialDirect net edgeTCPAddr localIP = Inr c)
   \<and> (\<forall>c'. Closed c' \<notin> set (snd (DialEdgeWithProxy net edgeTCPAddr localIP proxyURL)))"
proof (intro conjI impI)
  assume "(proxyURL \<noteq> [] \<and> dialViaProxy net proxyURL edgeTCPAddr localIP = Inr c)
      \<or> ((proxyURL = [] \<or> (\<exists>perr. dialViaProxy net proxyURL edgeTCPAddr localIP = Inl perr))
          \<and> dialDirect net edgeTCPAddr localIP = Inr c)"
  then have run: "DialEdgeWithProxy net edgeTCPAddr localIP proxyURL
      = opened c (handshakeWithEdge net c)"
    by (rule DialEdgeWithProxy_dialled)
  show "(tls_Handshake net c = None
         \<and> DialEdgeWithProxy net edgeTCPAddr localIP proxyURL
             = (Inr (tls_Client c), [Opened c, DeadlineSet c, DeadlineCleared c]))
      \<or> (\<exists>err. tls_Handshake net c = Some err
         \<and> DialEdgeWithProxy net edgeTCPAddr localIP proxyURL
             = (Inl (newDialError err ''TLS handshake with edge error''),
                [Opened c, DeadlineSet c]))"
    using opened_handshake_events [of c net] by (auto simp: run prod_eq_iff)
next
  assume "(proxyURL = [] \<or> (\<exists>perr. dialViaProxy net proxyURL edgeTCPAddr localIP = Inl perr))
        \<and> dialDirect net edgeTCPAddr localIP = Inl derr"
  then show "DialEdgeWithProxy net edgeTCPAddr localIP proxyURL
        = (Inl (newDialError derr ''DialContext error''), [])"
    by (auto simp: DialEdgeWithProxy_def)
next
  assume "Opened c \<in> set (snd (DialEdgeWithProxy net edgeTCPAddr localIP proxyURL))"
  then show "(proxyURL \<noteq> [] \<and> dialViaProxy net proxyURL edgeTCPAddr localIP = Inr c)
        \<or> dialDirect net edgeTCPAddr localIP = Inr c"
    by (rule DialEdgeWithProxy_opened_by_dial)
next
  show "\<forall>c'. Closed c' \<notin> set (snd (DialEdgeWithProxy net edgeTCPAddr localIP proxyURL))"
    by (rule DialEdgeWithProxy_never_closes)
qed

text \<open>
  The theorem on four calls. Through the proxy \<open>socks5://10.0.0.1\<close>, whose dial gives
  connection 5: once with a handshake that succeeds, once with one that times out.
  With nothing listening at the proxy and a direct dial that gives connection 7, whose
  handshake times out. And with nothing listening at the proxy and a direct dial that
  is refused.
\<close>

theorem DialEdgeWithProxy_connections_witness:
  "DialEdgeWithProxy
      \<lparr>url_Parse = (\<lambda>s. Inr \<lparr>User = None, Host = ''10.0.0.1'',
                             Hostname = ''10.0.0.1'', Port = []\<rparr>),
       proxy_SOCKS5 = (\<lambda>a auth ip. None),
       socks5_Dial = (\<lambda>a auth ip t. if a = ''10.0.0.1:1080'' then Inr 5 else Inr 6),
       net_Dial = (\<lambda>ip t. Inr 7),
       tls_Handshake = (\<lambda>c. None)\<rparr>
      ''198.41.192.167:7844'' None ''socks5://10.0.0.1''
     = (Inr (tls_Client 5), [Opened 5, DeadlineSet 5, DeadlineCleared 5])
   \<and> DialEdgeWithProxy
      \<lparr>url_Parse = (\<lambda>s. Inr \<lparr>User = None, Host = ''10.0.0.1'',
                             Hostname = ''10.0.0.1'', Port = []\<rparr>),
       proxy_SOCKS5 = (\<lambda>a auth ip. None),
       socks5_Dial = (\<lambda>a auth ip t. if a = ''10.0.0.1:1080'' then Inr 5 else Inr 6),
       net_Dial = (\<lambda>ip t. Inr 7),
       tls_Handshake = (\<lambda>c. Some (Foreign (OtherType ''*net.OpError'') ''i/o timeout'' None))\<rparr>
      ''198.41.192.167:7844'' None ''socks5://10.0.0.1''
     = (Inl (DialError (Wrap (Foreign (OtherType ''*net.OpError'') ''i/o timeout'' None)
                         ''TLS handshake with edge error'')),
        [Opened 5, DeadlineSet 5])
   \<and> DialEdgeWithProxy
      \<lparr>url_Parse = (\<lambda>s. Inr \<lparr>User = None, Host = ''127.0.0.1:9999'',
                             Hostname = ''127.0.0.1'', Port = ''9999''\<rparr>),
       proxy_SOCKS5 = (\<lambda>a auth ip. None),
       socks5_Dial = (\<lambda>a auth ip t. Inl (Foreign (OtherType ''*net.OpError'') ''refused'' None)),
       net_Dial = (\<lambda>ip t. Inr 7),
       tls_Handshake = (\<lambda>c. Some (Foreign (OtherType ''*net.OpError'') ''i/o timeout'' None))\<rparr>
      ''198.41.192.167:7844'' None ''socks5://127.0.0.1:9999''
     = (Inl (DialError (Wrap (Foreign (OtherType ''*net.OpError'') ''i/o timeout'' None)
                         ''TLS handshake with edge error'')),
        [Opened 7, DeadlineSet 7])
   \<and> DialEdgeWithProxy
      \<lparr>url_Parse = (\<lambda>s. Inr \<lparr>User = None, Host = ''127.0.0.1:9999'',
                             Hostname = ''127.0.0.1'', Port = ''9999''\<rparr>),
       proxy_SOCKS5 = (\<lambda>a auth ip. None),
       socks5_Dial = (\<lambda>a auth ip t. Inl (Foreign (OtherType ''*net.OpError'') ''refused'' None)),
       net_Dial = (\<lambda>ip t. Inl (Foreign (OtherType ''*net.OpError'') ''refused'' None)),
       tls_Handshake = (\<lambda>c. None)\<rparr>
      ''198.41.192.167:7844'' None ''socks5://127.0.0.1:9999''
     = (Inl (DialError (Wrap (Foreign (OtherType ''*net.OpError'') ''refused'' None)
                         ''DialContext error'')), [])"
proof -
  have proxied: "dialViaProxy
      \<lparr>url_Parse = (\<lambda>s. Inr \<lparr>User = None, Host = ''10.0.0.1'',
                             Hostname = ''10.0.0.1'', Port = []\<rparr>),
       proxy_SOCKS5 = (\<lambda>a auth ip. None),
       socks5_Dial = (\<lambda>a auth ip t. if a = ''10.0.0.1:1080'' then Inr 5 else Inr 6),
       net_Dial = (\<lambda>ip t. Inr 7),
       tls_Handshake = hs\<rparr>
      ''socks5://10.0.0.1'' ''198.41.192.167:7844'' None = Inr 5" for hs
    by (simp add: dialViaProxy_def JoinHostPort_def)
  have refused: "dialViaProxy
      \<lparr>url_Parse = (\<lambda>s. Inr \<lparr>User = None, Host = ''127.0.0.1:9999'',
                             Hostname = ''127.0.0.1'', Port = ''9999''\<rparr>),
       proxy_SOCKS5 = (\<lambda>a auth ip. None),
       socks5_Dial = (\<lambda>a auth ip t. Inl (Foreign (OtherType ''*net.OpError'') ''refused'' None)),
       net_Dial = nd,
       tls_Handshake = hs\<rparr>
      ''socks5://127.0.0.1:9999'' ''198.41.192.167:7844'' None
     = Inl (Wrap (Foreign (OtherType ''*net.OpError'') ''refused'' None) ''proxy dial failed'')"
    for nd hs
    by (simp add: dialViaProxy_def)
  show ?thesis
    using
      DialEdgeWithProxy_connections
        [of "''socks5://10.0.0.1''"
          "\<lparr>url_Parse = (\<lambda>s. Inr \<lparr>User = None, Host = ''10.0.0.1'',
                             Hostname = ''10.0.0.1'', Port = []\<rparr>),
       proxy_SOCKS5 = (\<lambda>a auth ip. None),
       socks5_Dial = (\<lambda>a auth ip t. if a = ''10.0.0.1:1080'' then Inr 5 else Inr 6),
       net_Dial = (\<lambda>ip t. Inr 7),
       tls_Handshake = (\<lambda>c. None)\<rparr>" "''198.41.192.167:7844''" None 5,
         THEN conjunct1]
      DialEdgeWithProxy_connections
        [of "''socks5://10.0.0.1''"
          "\<lparr>url_Parse = (\<lambda>s. Inr \<lparr>User = None, Host = ''10.0.0.1'',
                             Hostname = ''10.0.0.1'', Port = []\<rparr>),
       proxy_SOCKS5 = (\<lambda>a auth ip. None),
       socks5_Dial = (\<lambda>a auth ip t. if a = ''10.0.0.1:1080'' then Inr 5 else Inr 6),
       net_Dial = (\<lambda>ip t. Inr 7),
       tls_Handshake = (\<lambda>c. Some (Foreign (OtherType ''*net.OpError'') ''i/o timeout'' None))\<rparr>"
          "''198.41.192.167:7844''" None 5, THEN conjunct1]
      DialEdgeWithProxy_connections
        [of "''socks5://127.0.0.1:9999''"
          "\<lparr>url_Parse = (\<lambda>s. Inr \<lparr>User = None, Host = ''127.0.0.1:9999'',
                             Hostname = ''127.0.0.1'', Port = ''9999''\<rparr>),
       proxy_SOCKS5 = (\<lambda>a auth ip. None),
       socks5_Dial = (\<lambda>a auth ip t. Inl (Foreign (OtherType ''*net.OpError'') ''refused'' None)),
       net_Dial = (\<lambda>ip t. Inr 7),
       tls_Handshake = (\<lambda>c. Some (Foreign (OtherType ''*net.OpError'') ''i/o timeout'' None))\<rparr>"
          "''198.41.192.167:7844''" None 7, THEN conjunct1]
      DialEdgeWithProxy_connections
        [of "''socks5://127.0.0.1:9999''"
          "\<lparr>url_Parse = (\<lambda>s. Inr \<lparr>User = None, Host = ''127.0.0.1:9999'',
                             Hostname = ''127.0.0.1'', Port = ''9999''\<rparr>),
       proxy_SOCKS5 = (\<lambda>a auth ip. None),
       socks5_Dial = (\<lambda>a auth ip t. Inl (Foreign (OtherType ''*net.OpError'') ''refused'' None)),
       net_Dial = (\<lambda>ip t. Inl (Foreign (OtherType ''*net.OpError'') ''refused'' None)),
       tls_Handshake = (\<lambda>c. None)\<rparr>"
          "''198.41.192.167:7844''" None _
          "Foreign (OtherType ''*net.OpError'') ''refused'' None",
         THEN conjunct2, THEN conjunct1]
    by (simp add: proxied refused dialDirect_def newDialError_def)
qed

text \<open>
  C5 as stated fails when the handshake fails: the direct dial opens connection 7, the
  handshake on it times out, and the call returns the dial error with connection 7
  opened and not closed.
\<close>

theorem DialEdgeWithProxy_leaves_open_counterexample:
  "DialEdgeWithProxy
      \<lparr>url_Parse = (\<lambda>s. Inl (Foreign (OtherType ''*url.Error'') ''parse'' None)),
       proxy_SOCKS5 = (\<lambda>a auth ip. None),
       socks5_Dial = (\<lambda>a auth ip t. Inl (Foreign (OtherType ''*net.OpError'') ''refused'' None)),
       net_Dial = (\<lambda>ip t. Inr 7),
       tls_Handshake = (\<lambda>c. Some (Foreign (OtherType ''*net.OpError'') ''i/o timeout'' None))\<rparr>
      ''198.41.192.167:7844'' None []
     = (Inl (DialError (Wrap (Foreign (OtherType ''*net.OpError'') ''i/o timeout'' None)
                         ''TLS handshake with edge error'')),
        [Opened 7, DeadlineSet 7])
   \<and> Closed 7 \<notin> set (snd (DialEdgeWithProxy
      \<lparr>url_Parse = (\<lambda>s. Inl (Foreign (OtherType ''*url.Error'') ''parse'' None)),
       proxy_SOCKS5 = (\<lambda>a auth ip. None),
       socks5_Dial = (\<lambda>a auth ip t. Inl (Foreign (OtherType ''*net.OpError'') ''refused'' None)),
       net_Dial = (\<lambda>ip t. Inr 7),
       tls_Handshake = (\<lambda>c. Some (Foreign (OtherType ''*net.OpError'') ''i/o timeout'' None))\<rparr>
      ''198.41.192.167:7844'' None []))"
  by (simp add: DialEdgeWithProxy_def dialDirect_def opened_def handshakeWithEdge_def
      newDialError_def)

end
